theory Spec2Isabelle
  imports Main
begin

section \<open>Three encodings of a singly-linked list\<close>

text \<open>
  The repository defines the same four operations (\<open>empty\<close>, \<open>cons\<close>, \<open>map\<close>,
  \<open>toArray\<close>) in four modules: the tagged union, the Scott encoding with keyed
  handlers, the Scott encoding with positional handlers, and the object algebra. The
  modules share their names, so every constant carries the prefix of its module:
  \<open>tu_\<close>, \<open>sk_\<close>, \<open>sp_\<close> and \<open>oa_\<close>. A native array \<open>T[]\<close> is a HOL list; a handler
  \<open>() => Result\<close> is a function from \<open>unit\<close>, so that "called with no arguments" is
  the application to \<open>()\<close>.
\<close>

subsection \<open>Tagged union\<close>

text \<open>
  \<^verbatim>\<open>type List<T> = { type: 'Cons'; head: T; tail: List<T> } | { type: 'Empty' }\<close>:
  the discriminant \<open>type\<close> is the constructor of the datatype.
\<close>

datatype 'a tu_list = TU_Empty | TU_Cons 'a "'a tu_list"

definition tu_empty :: "'a tu_list" where
  "tu_empty = TU_Empty"

definition tu_cons :: "'a \<Rightarrow> 'a tu_list \<Rightarrow> 'a tu_list" where
  "tu_cons head tail = TU_Cons head tail"

text \<open>The \<open>switch (list.type)\<close> of \<open>map\<close> and \<open>toArray\<close> is the pattern match.\<close>

function (domintros) tu_map :: "'a tu_list \<Rightarrow> ('a \<Rightarrow> 'b) \<Rightarrow> 'b tu_list" where
  "tu_map TU_Empty f = tu_empty"
| "tu_map (TU_Cons head tail) f = tu_cons (f head) (tu_map tail f)"
  by pat_completeness auto
termination
  by (relation "measure (\<lambda>(list, f). size list)") auto

function (domintros) tu_toArray :: "'a tu_list \<Rightarrow> 'a list" where
  "tu_toArray TU_Empty = []"
| "tu_toArray (TU_Cons head tail) = head # tu_toArray tail"
  by pat_completeness auto
termination
  by (relation "measure size") auto

subsection \<open>Scott encoding, positional handlers\<close>

text \<open>
  \<^verbatim>\<open>type List<T> = { caseOf: <Result>(onEmpty: () => Result,
                                     onCons: (head: T, tail: List<T>) => Result) => Result }\<close>

  A list is an object holding one closure. The type is recursive through the argument of
  a handler and quantifies over \<open>Result\<close> at every call, so it is no HOL function space.
  The closures are therefore represented by what they capture: the module creates a
  \<open>caseOf\<close> closure in exactly three places, and each is one constructor carrying the
  variables the closure captures.
    \<^item> \<open>SP_Empty\<close>: the object made by \<open>empty()\<close>, capturing nothing;
    \<^item> \<open>SP_Cons head tail\<close>: the object made by \<open>cons(head, tail)\<close>;
    \<^item> \<open>SP_Map list f\<close>: the object made by \<open>map(list, f)\<close>.
  Calling \<open>list.caseOf(onEmpty, onCons)\<close> runs the body of the captured closure: that is
  \<open>sp_caseOf\<close>, one equation per closure body. The handlers stay HOL functions, and
  \<open>Result\<close> is the type variable \<open>'r\<close> of \<open>sp_caseOf\<close>, chosen at each call.

  Types are erased when the program runs, so the elements range over one type \<open>'v\<close> of
  values and the mapped function is \<open>'v \<Rightarrow> 'v\<close>; a function from \<open>A\<close> to \<open>B\<close> is the
  instance where \<open>'v\<close> is the sum of both. An object with a hand-written \<open>caseOf\<close> is
  outside this type: the lists here are those the module's own functions return.
\<close>

datatype 'v sp_list =
    SP_Empty
  | SP_Cons 'v "'v sp_list"
  | SP_Map "'v sp_list" "'v \<Rightarrow> 'v"

definition sp_empty :: "'v sp_list" where
  "sp_empty = SP_Empty"

definition sp_cons :: "'v \<Rightarrow> 'v sp_list \<Rightarrow> 'v sp_list" where
  "sp_cons head tail = SP_Cons head tail"

definition sp_map :: "'v sp_list \<Rightarrow> ('v \<Rightarrow> 'v) \<Rightarrow> 'v sp_list" where
  "sp_map list f = SP_Map list f"

text \<open>
  The three closure bodies: \<open>(f) => f()\<close>, \<open>(_, f) => f(head, tail)\<close> and
  \<open>(onEmpty, onCons) => list.caseOf(() => onEmpty(),
      (head, tail) => onCons(f(head), map(tail, f)))\<close>.
\<close>

function (domintros) sp_caseOf ::
  "'v sp_list \<Rightarrow> (unit \<Rightarrow> 'r) \<Rightarrow> ('v \<Rightarrow> 'v sp_list \<Rightarrow> 'r) \<Rightarrow> 'r" where
  "sp_caseOf SP_Empty onEmpty onCons = onEmpty ()"
| "sp_caseOf (SP_Cons head tail) onEmpty onCons = onCons head tail"
| "sp_caseOf (SP_Map list f) onEmpty onCons =
     sp_caseOf list (\<lambda>_. onEmpty ()) (\<lambda>head tail. onCons (f head) (sp_map tail f))"
  by pat_completeness auto
termination
  by (relation "measure (\<lambda>(list, onEmpty, onCons). size list)") auto

text \<open>
  \<open>sp_caseOf\<close> calls its second handler only on a list smaller than the one it
  dispatches on. This is what makes the recursion of \<open>toArray\<close>, which goes through the
  handler it passes, well-founded.
\<close>

lemma sp_caseOf_cong [fundef_cong]:
  "list = list' \<Longrightarrow> onEmpty () = onEmpty' ()
   \<Longrightarrow> (\<And>head tail. size tail < size list' \<Longrightarrow> onCons head tail = onCons' head tail)
   \<Longrightarrow> sp_caseOf list onEmpty onCons = sp_caseOf list' onEmpty' onCons'"
proof (induction list' arbitrary: list onEmpty onEmpty' onCons onCons')
  case SP_Empty
  then show ?case by simp
next
  case (SP_Cons x t)
  then show ?case by simp
next
  case (SP_Map t f)
  have "sp_caseOf t (\<lambda>_. onEmpty ()) (\<lambda>head tail. onCons (f head) (sp_map tail f))
      = sp_caseOf t (\<lambda>_. onEmpty' ()) (\<lambda>head tail. onCons' (f head) (sp_map tail f))"
    by (rule SP_Map.IH) (simp_all add: SP_Map.prems sp_map_def)
  then show ?case using SP_Map.prems by simp
qed

function (domintros) sp_toArray :: "'v sp_list \<Rightarrow> 'v list" where
  "sp_toArray list = sp_caseOf list (\<lambda>_. []) (\<lambda>head tail. head # sp_toArray tail)"
  by pat_completeness auto
termination
  by (relation "measure size") auto

declare sp_toArray.simps [simp del]

subsection \<open>Scott encoding, keyed handlers\<close>

text \<open>
  \<^verbatim>\<open>type ListCases<T> = <Result>(_: { Empty: () => Result
                                      Cons: (head: T, tail: List<T>) => Result }) => Result\<close>

  The same module with the two handlers passed in one object, here the record
  \<open>sk_cases\<close> (its fields are suffixed: \<open>Cons\<close> is the constructor of HOL lists). The
  closures are represented as in the positional module.
\<close>

datatype 'v sk_list =
    SK_Empty
  | SK_Cons 'v "'v sk_list"
  | SK_Map "'v sk_list" "'v \<Rightarrow> 'v"

record ('v, 'r) sk_cases =
  Empty_h :: "unit \<Rightarrow> 'r"
  Cons_h :: "'v \<Rightarrow> 'v sk_list \<Rightarrow> 'r"

definition sk_empty :: "'v sk_list" where
  "sk_empty = SK_Empty"

definition sk_cons :: "'v \<Rightarrow> 'v sk_list \<Rightarrow> 'v sk_list" where
  "sk_cons head tail = SK_Cons head tail"

definition sk_map :: "'v sk_list \<Rightarrow> ('v \<Rightarrow> 'v) \<Rightarrow> 'v sk_list" where
  "sk_map list f = SK_Map list f"

text \<open>
  The three closure bodies: \<open>({ Empty }) => Empty()\<close>, \<open>({ Cons }) => Cons(head, tail)\<close>
  and \<open>({ Cons, Empty }) => list.caseOf({ Empty: () => Empty(),
      Cons: (head, tail) => Cons(f(head), map(tail, f)) })\<close>.
\<close>

function (domintros) sk_caseOf :: "'v sk_list \<Rightarrow> ('v, 'r) sk_cases \<Rightarrow> 'r" where
  "sk_caseOf SK_Empty hs = Empty_h hs ()"
| "sk_caseOf (SK_Cons head tail) hs = Cons_h hs head tail"
| "sk_caseOf (SK_Map list f) hs =
     sk_caseOf list
       \<lparr>Empty_h = (\<lambda>_. Empty_h hs ()),
        Cons_h = (\<lambda>head tail. Cons_h hs (f head) (sk_map tail f))\<rparr>"
  by pat_completeness auto
termination
  by (relation "measure (\<lambda>(list, hs). size list)") auto

lemma sk_caseOf_eq:
  "Empty_h hs () = Empty_h hs' ()
   \<Longrightarrow> (\<And>head tail. size tail < size list \<Longrightarrow> Cons_h hs head tail = Cons_h hs' head tail)
   \<Longrightarrow> sk_caseOf list hs = sk_caseOf list hs'"
proof (induction list arbitrary: hs hs')
  case SK_Empty
  then show ?case by simp
next
  case (SK_Cons x t)
  then show ?case by simp
next
  case (SK_Map t f)
  have "sk_caseOf t \<lparr>Empty_h = (\<lambda>_. Empty_h hs ()),
                     Cons_h = (\<lambda>head tail. Cons_h hs (f head) (sk_map tail f))\<rparr>
      = sk_caseOf t \<lparr>Empty_h = (\<lambda>_. Empty_h hs' ()),
                     Cons_h = (\<lambda>head tail. Cons_h hs' (f head) (sk_map tail f))\<rparr>"
    by (rule SK_Map.IH) (simp_all add: SK_Map.prems sk_map_def)
  then show ?case by simp
qed

lemma sk_caseOf_cong [fundef_cong]:
  "list = list' \<Longrightarrow> onEmpty () = onEmpty' ()
   \<Longrightarrow> (\<And>head tail. size tail < size list' \<Longrightarrow> onCons head tail = onCons' head tail)
   \<Longrightarrow> sk_caseOf list \<lparr>Empty_h = onEmpty, Cons_h = onCons\<rparr>
     = sk_caseOf list' \<lparr>Empty_h = onEmpty', Cons_h = onCons'\<rparr>"
  by (simp add: sk_caseOf_eq)

function (domintros) sk_toArray :: "'v sk_list \<Rightarrow> 'v list" where
  "sk_toArray list =
     sk_caseOf list \<lparr>Empty_h = (\<lambda>_. []), Cons_h = (\<lambda>head tail. head # sk_toArray tail)\<rparr>"
  by pat_completeness auto
termination
  by (relation "measure size") auto

declare sk_toArray.simps [simp del]

subsection \<open>Object algebra\<close>

text \<open>
  \<^verbatim>\<open>interface ListAlg<T, ListT> { empty(): ListT; cons(head: T, tail: ListT): ListT }\<close>
  \<^verbatim>\<open>type List<T> = <Result>(_: ListAlg<T, Result>) => Result\<close>

  A list is a function from an algebra to the algebra's result type. The function is
  polymorphic in \<open>Result\<close>; in HOL each use of a list has one result type \<open>'r\<close>, and a
  list built by the constructors is a polymorphic constant, usable at every \<open>'r\<close>.
  \<open>map\<close> applies its list at the result type "list of \<open>B\<close>" and \<open>toArray\<close> at the result
  type "array of \<open>T\<close>", as the type checker instantiates them in the source. The fields
  of the algebra are prefixed (\<open>empty\<close> and \<open>cons\<close> are taken).
\<close>

record ('t, 'r) ListAlg =
  alg_empty :: "unit \<Rightarrow> 'r"
  alg_cons :: "'t \<Rightarrow> 'r \<Rightarrow> 'r"

type_synonym ('t, 'r) oa_list = "('t, 'r) ListAlg \<Rightarrow> 'r"

definition oa_empty :: "('t, 'r) oa_list" where
  "oa_empty = (\<lambda>L. alg_empty L ())"

definition oa_cons :: "'t \<Rightarrow> ('t, 'r) oa_list \<Rightarrow> ('t, 'r) oa_list" where
  "oa_cons first rest = (\<lambda>L. alg_cons L first (rest L))"

definition oa_map :: "('a, ('b, 'r) oa_list) oa_list \<Rightarrow> ('a \<Rightarrow> 'b) \<Rightarrow> ('b, 'r) oa_list" where
  "oa_map list f =
     list \<lparr>alg_empty = (\<lambda>_. oa_empty), alg_cons = (\<lambda>head tail. oa_cons (f head) tail)\<rparr>"

definition oa_toArray :: "('t, 't list) oa_list \<Rightarrow> 't list" where
  "oa_toArray list = list \<lparr>alg_empty = (\<lambda>_. []), alg_cons = (\<lambda>head tail. head # tail)\<rparr>"

section \<open>Lists of the specification and of the tests\<close>

text \<open>
  "The list built as nested \<open>cons\<close> applications terminated by \<open>empty()\<close>" from a finite
  sequence \<open>[x1, ..., xn]\<close>, in each module. \<open>oa_build xs\<close> is polymorphic in the result
  type, as a list of the source is.
\<close>

primrec tu_build :: "'a list \<Rightarrow> 'a tu_list" where
  "tu_build [] = tu_empty"
| "tu_build (x # xs) = tu_cons x (tu_build xs)"

primrec sp_build :: "'v list \<Rightarrow> 'v sp_list" where
  "sp_build [] = sp_empty"
| "sp_build (x # xs) = sp_cons x (sp_build xs)"

primrec sk_build :: "'v list \<Rightarrow> 'v sk_list" where
  "sk_build [] = sk_empty"
| "sk_build (x # xs) = sk_cons x (sk_build xs)"

primrec oa_build :: "'t list \<Rightarrow> ('t, 'r) oa_list" where
  "oa_build [] = oa_empty"
| "oa_build (x # xs) = oa_cons x (oa_build xs)"

text \<open>
  The same sequence written directly as a function literal over the algebra,
  \<open>(L) => L.cons(x1, L.cons(x2, ... L.empty()))\<close>, without the constructors of the module.
\<close>

definition oa_literal :: "'t list \<Rightarrow> ('t, 'r) oa_list" where
  "oa_literal xs = (\<lambda>L. foldr (alg_cons L) xs (alg_empty L ()))"

text \<open>
  The two lists of \<open>object-algebra.test.ts\<close>: \<open>List.cons(3, List.cons(2, List.empty()))\<close>
  and \<open>(L) => L.cons(3, L.cons(2, L.empty()))\<close>. The elements are the numbers 3 and 2 and
  the test squares them; on these values the product of two doubles is the product of
  the integers, so the elements are modelled as \<open>int\<close>.
\<close>

definition numbers :: "(int, 'r) oa_list" where
  "numbers = oa_cons 3 (oa_cons 2 oa_empty)"

definition numbers_lambda :: "(int, 'r) oa_list" where
  "numbers_lambda = (\<lambda>L. alg_cons L 3 (alg_cons L 2 (alg_empty L ())))"

text \<open>
  What a Scott-encoded list shows to its handlers: nothing when it dispatches to the
  handler of the empty case, the head and the tail it passes otherwise. This is a device
  of the proofs, not a function of the source.
\<close>

fun sp_view :: "'v sp_list \<Rightarrow> ('v \<times> 'v sp_list) option" where
  "sp_view SP_Empty = None"
| "sp_view (SP_Cons head tail) = Some (head, tail)"
| "sp_view (SP_Map list f) =
     (case sp_view list of None \<Rightarrow> None | Some (head, tail) \<Rightarrow> Some (f head, sp_map tail f))"

fun sk_view :: "'v sk_list \<Rightarrow> ('v \<times> 'v sk_list) option" where
  "sk_view SK_Empty = None"
| "sk_view (SK_Cons head tail) = Some (head, tail)"
| "sk_view (SK_Map list f) =
     (case sk_view list of None \<Rightarrow> None | Some (head, tail) \<Rightarrow> Some (f head, sk_map tail f))"

section \<open>Auxiliary facts\<close>

subsection \<open>Tagged union\<close>

lemma tu_toArray_map: "tu_toArray (tu_map list f) = map f (tu_toArray list)"
  by (induction list) (simp_all add: tu_empty_def tu_cons_def)

lemma tu_toArray_build: "tu_toArray (tu_build xs) = xs"
  by (induction xs) (simp_all add: tu_empty_def tu_cons_def)

lemma tu_map_total: "tu_map_dom (list, f)"
  by (induction list) (auto intro: tu_map.domintros)

lemma tu_toArray_total: "tu_toArray_dom list"
  by (induction list) (auto intro: tu_toArray.domintros)

subsection \<open>Scott encoding, positional handlers\<close>

lemma sp_caseOf_view:
  "sp_caseOf list onEmpty onCons =
     (case sp_view list of None \<Rightarrow> onEmpty () | Some (head, tail) \<Rightarrow> onCons head tail)"
  by (induction list arbitrary: onEmpty onCons) (simp_all split: option.split)

lemma sp_caseOf_map:
  "sp_caseOf (sp_map list f) onEmpty onCons =
     sp_caseOf list (\<lambda>_. onEmpty ()) (\<lambda>head tail. onCons (f head) (sp_map tail f))"
  unfolding sp_map_def [of list] by simp

lemma sp_view_size: "sp_view list = Some (head, tail) \<Longrightarrow> size tail < size list"
  by (induction list arbitrary: head tail) (auto simp: sp_map_def split: option.splits)

lemma sp_toArray_view:
  "sp_toArray list =
     (case sp_view list of None \<Rightarrow> [] | Some (head, tail) \<Rightarrow> head # sp_toArray tail)"
  by (subst sp_toArray.simps) (simp add: sp_caseOf_view)

lemma sp_toArray_Empty: "sp_toArray SP_Empty = []"
  by (subst sp_toArray.simps) simp

lemma sp_toArray_Cons: "sp_toArray (SP_Cons x xs) = x # sp_toArray xs"
  by (subst sp_toArray.simps) simp

lemma sp_toArray_Map: "sp_toArray (SP_Map list f) = map f (sp_toArray list)"
proof (induction list rule: measure_induct_rule [where f = size])
  case (less l)
  show ?case
  proof (cases "sp_view l")
    case None
    then show ?thesis
      by (simp add: sp_toArray_view [of "SP_Map l f"] sp_toArray_view [of l])
  next
    case (Some p)
    obtain h t where p: "p = (h, t)" by (cases p)
    with Some have "size t < size l" by (simp add: sp_view_size)
    then have "sp_toArray (SP_Map t f) = map f (sp_toArray t)" by (rule less.IH)
    with Some p show ?thesis
      by (simp add: sp_toArray_view [of "SP_Map l f"] sp_toArray_view [of l] sp_map_def)
  qed
qed

lemma sp_toArray_build: "sp_toArray (sp_build xs) = xs"
  by (induction xs) (simp_all add: sp_empty_def sp_cons_def sp_toArray_Empty sp_toArray_Cons)

lemma sp_caseOf_total: "sp_caseOf_dom (list, onEmpty, onCons)"
  by (induction list arbitrary: onEmpty onCons) (auto intro: sp_caseOf.domintros)

lemma sp_toArray_total: "sp_toArray_dom list"
  by (induction list rule: measure_induct_rule [where f = size])
     (auto intro: sp_toArray.domintros)

subsection \<open>Scott encoding, keyed handlers\<close>

lemma sk_caseOf_view:
  "sk_caseOf list hs =
     (case sk_view list of None \<Rightarrow> Empty_h hs () | Some (head, tail) \<Rightarrow> Cons_h hs head tail)"
  by (induction list arbitrary: hs) (simp_all split: option.split)

lemma sk_caseOf_map:
  "sk_caseOf (sk_map list f) hs =
     sk_caseOf list
       \<lparr>Empty_h = (\<lambda>_. Empty_h hs ()),
        Cons_h = (\<lambda>head tail. Cons_h hs (f head) (sk_map tail f))\<rparr>"
  unfolding sk_map_def [of list] by simp

lemma sk_view_size: "sk_view list = Some (head, tail) \<Longrightarrow> size tail < size list"
  by (induction list arbitrary: head tail) (auto simp: sk_map_def split: option.splits)

lemma sk_toArray_view:
  "sk_toArray list =
     (case sk_view list of None \<Rightarrow> [] | Some (head, tail) \<Rightarrow> head # sk_toArray tail)"
  by (subst sk_toArray.simps) (simp add: sk_caseOf_view split: option.split)

lemma sk_toArray_Empty: "sk_toArray SK_Empty = []"
  by (subst sk_toArray.simps) simp

lemma sk_toArray_Cons: "sk_toArray (SK_Cons x xs) = x # sk_toArray xs"
  by (subst sk_toArray.simps) simp

lemma sk_toArray_Map: "sk_toArray (SK_Map list f) = map f (sk_toArray list)"
proof (induction list rule: measure_induct_rule [where f = size])
  case (less l)
  show ?case
  proof (cases "sk_view l")
    case None
    then show ?thesis
      by (simp add: sk_toArray_view [of "SK_Map l f"] sk_toArray_view [of l])
  next
    case (Some p)
    obtain h t where p: "p = (h, t)" by (cases p)
    with Some have "size t < size l" by (simp add: sk_view_size)
    then have "sk_toArray (SK_Map t f) = map f (sk_toArray t)" by (rule less.IH)
    with Some p show ?thesis
      by (simp add: sk_toArray_view [of "SK_Map l f"] sk_toArray_view [of l] sk_map_def)
  qed
qed

lemma sk_toArray_build: "sk_toArray (sk_build xs) = xs"
  by (induction xs) (simp_all add: sk_empty_def sk_cons_def sk_toArray_Empty sk_toArray_Cons)

lemma sk_caseOf_total: "sk_caseOf_dom (list, hs)"
  by (induction list arbitrary: hs) (auto intro: sk_caseOf.domintros)

lemma sk_toArray_total: "sk_toArray_dom list"
  by (induction list rule: measure_induct_rule [where f = size])
     (auto intro: sk_toArray.domintros)

subsection \<open>Object algebra\<close>

lemma oa_toArray_empty: "oa_toArray oa_empty = []"
  by (simp add: oa_toArray_def oa_empty_def)

lemma oa_toArray_cons: "oa_toArray (oa_cons x xs) = x # oa_toArray xs"
  by (simp add: oa_toArray_def oa_cons_def)

lemma oa_toArray_build: "oa_toArray (oa_build xs) = xs"
  by (induction xs) (simp_all add: oa_toArray_empty oa_toArray_cons)

lemma oa_map_build: "oa_map (oa_build xs) f = oa_build (map f xs)"
  by (induction xs) (simp_all add: oa_map_def oa_empty_def oa_cons_def)

lemma oa_literal_apply: "oa_literal xs L = oa_build xs L"
  by (induction xs) (simp_all add: oa_literal_def oa_empty_def oa_cons_def)

lemma oa_literal_build: "oa_literal xs = oa_build xs"
  by (rule ext) (rule oa_literal_apply)

section \<open>The properties of the specification\<close>

text \<open>
  C1. In each encoding, mapping \<open>f\<close> over a list and then materialising it gives the
  array obtained by applying \<open>f\<close> to every element of the materialised list. For the
  tagged union and the two Scott modules this holds of every list value; for the
  object algebra, of every list built from a finite sequence by \<open>cons\<close> and \<open>empty\<close>.
\<close>

theorem map_commutes_with_toArray:
  "tu_toArray (tu_map tlist f) = map f (tu_toArray tlist)
   \<and> sp_toArray (sp_map plist g) = map g (sp_toArray plist)
   \<and> sk_toArray (sk_map klist g) = map g (sk_toArray klist)
   \<and> oa_toArray (oa_map (oa_build xs) h) = map h (oa_toArray (oa_build xs))"
proof -
  have "oa_toArray (oa_map (oa_build xs) h) = map h (oa_toArray (oa_build xs))"
    by (simp only: oa_map_build oa_toArray_build)
  then show ?thesis
    by (simp add: tu_toArray_map sp_map_def sp_toArray_Map sk_map_def sk_toArray_Map)
qed

text \<open>
  C2. For every finite sequence, the list built from it by nested \<open>cons\<close> applications
  ended by \<open>empty()\<close> materialises to the same array in the tagged union, in both Scott
  modules and in the object algebra: the sequence itself.
\<close>

theorem toArray_same_in_all_encodings:
  "tu_toArray (tu_build xs) = sp_toArray (sp_build xs)
   \<and> sp_toArray (sp_build xs) = sk_toArray (sk_build xs)
   \<and> sk_toArray (sk_build xs) = oa_toArray (oa_build xs)
   \<and> oa_toArray (oa_build xs) = xs"
  by (simp add: tu_toArray_build sp_toArray_build sk_toArray_build oa_toArray_build)

text \<open>
  C3. In each encoding \<open>toArray(empty())\<close> is the empty array, and
  \<open>toArray(cons(x, xs))\<close> is \<open>x\<close> followed by \<open>toArray(xs)\<close>, for every element \<open>x\<close> and
  every list \<open>xs\<close> of that encoding.
\<close>

theorem toArray_unfolding:
  "tu_toArray tu_empty = []
   \<and> tu_toArray (tu_cons x txs) = x # tu_toArray txs
   \<and> sp_toArray sp_empty = []
   \<and> sp_toArray (sp_cons x pxs) = x # sp_toArray pxs
   \<and> sk_toArray sk_empty = []
   \<and> sk_toArray (sk_cons x kxs) = x # sk_toArray kxs
   \<and> oa_toArray oa_empty = []
   \<and> oa_toArray (oa_cons x oxs) = x # oa_toArray oxs"
  by (simp add: tu_empty_def tu_cons_def sp_empty_def sp_cons_def sp_toArray_Empty
      sp_toArray_Cons sk_empty_def sk_cons_def sk_toArray_Empty sk_toArray_Cons
      oa_toArray_empty oa_toArray_cons)

text \<open>
  C4. In both Scott modules, \<open>caseOf\<close> of \<open>empty()\<close> returns the result of the handler
  of the empty case called with no arguments, and \<open>caseOf\<close> of \<open>cons(h, t)\<close> returns
  the result of the handler of the cons case called with exactly \<open>h\<close> and \<open>t\<close>, for all
  handlers.
\<close>

theorem scott_constructors_dispatch:
  "sp_caseOf sp_empty onEmpty onCons = onEmpty ()
   \<and> sp_caseOf (sp_cons h t) onEmpty onCons = onCons h t
   \<and> sk_caseOf sk_empty hs = Empty_h hs ()
   \<and> sk_caseOf (sk_cons h' t') hs = Cons_h hs h' t'"
  by (simp add: sp_empty_def sp_cons_def sk_empty_def sk_cons_def)

text \<open>
  C5. In the object algebra, \<open>empty()\<close> applied to an algebra \<open>L\<close> returns \<open>L.empty()\<close>,
  and \<open>cons(first, rest)\<close> applied to \<open>L\<close> returns \<open>L.cons(first, rest(L))\<close>: the tail
  is folded through the same algebra before \<open>L.cons\<close> receives it.
\<close>

theorem object_algebra_constructors:
  "oa_empty L = alg_empty L ()
   \<and> oa_cons first rest L = alg_cons L first (rest L)"
  by (simp add: oa_empty_def oa_cons_def)

text \<open>
  C6. In both Scott modules, \<open>caseOf\<close> of \<open>map(list, f)\<close> with the caller's handlers
  returns what \<open>caseOf\<close> of \<open>list\<close> returns with the handlers that delegate to the
  caller's handler of the empty case and call the caller's handler of the cons case
  with \<open>f(head)\<close> and \<open>map(tail, f)\<close>. In particular the mapped empty list dispatches to
  the empty case, and the mapped \<open>cons(h, t)\<close> to the cons case with \<open>f(h)\<close> and
  \<open>map(t, f)\<close>.
\<close>

theorem scott_map_dispatch:
  "sp_caseOf (sp_map plist f) onEmpty onCons =
     sp_caseOf plist (\<lambda>_. onEmpty ()) (\<lambda>head tail. onCons (f head) (sp_map tail f))
   \<and> sp_caseOf (sp_map sp_empty f) onEmpty onCons = onEmpty ()
   \<and> sp_caseOf (sp_map (sp_cons h t) f) onEmpty onCons = onCons (f h) (sp_map t f)
   \<and> sk_caseOf (sk_map klist f) hs =
     sk_caseOf klist
       \<lparr>Empty_h = (\<lambda>_. Empty_h hs ()),
        Cons_h = (\<lambda>head tail. Cons_h hs (f head) (sk_map tail f))\<rparr>
   \<and> sk_caseOf (sk_map sk_empty f) hs = Empty_h hs ()
   \<and> sk_caseOf (sk_map (sk_cons h' t') f) hs = Cons_h hs (f h') (sk_map t' f)"
  unfolding sp_caseOf_map sk_caseOf_map
  by (simp add: sp_empty_def sp_cons_def sk_empty_def sk_cons_def)

text \<open>
  C7. In the object algebra, a list written directly as a function literal over the
  algebra is the same function as the list built from the same sequence with \<open>cons\<close>
  and \<open>empty\<close>, so \<open>toArray\<close> and \<open>map\<close> followed by \<open>toArray\<close> give the same arrays on
  both. For the literal of the test, \<open>(L) => L.cons(3, L.cons(2, L.empty()))\<close>, squaring
  and materialising gives \<open>[9, 4]\<close>, as it does for \<open>cons(3, cons(2, empty()))\<close>; for any
  two elements and any \<open>f\<close> the literal maps to \<open>[f x, f y]\<close>.
\<close>

theorem object_algebra_literal_interoperable:
  "oa_literal xs L = oa_build xs L
   \<and> oa_toArray (oa_literal xs) = oa_toArray (oa_build xs)
   \<and> oa_map (oa_literal xs) f = oa_map (oa_build xs) f
   \<and> oa_toArray (oa_map (oa_literal xs) f) = oa_toArray (oa_map (oa_build xs) f)
   \<and> oa_toArray (oa_map (\<lambda>L. alg_cons L x (alg_cons L y (alg_empty L ()))) f) = [f x, f y]
   \<and> oa_toArray (oa_map (oa_cons x (oa_cons y oa_empty)) f) = [f x, f y]
   \<and> oa_toArray (oa_map numbers_lambda (\<lambda>n. n * n)) = [9, 4]
   \<and> oa_toArray (oa_map numbers (\<lambda>n. n * n)) = [9, 4]"
  by (simp add: oa_literal_build oa_toArray_def oa_map_def oa_cons_def oa_empty_def
      numbers_def numbers_lambda_def)

text \<open>
  C8. Every operation returns on every finite list. The recursive functions of the
  tagged union (\<open>map\<close>, \<open>toArray\<close>) and of the Scott modules (the dispatch \<open>caseOf\<close>,
  which a mapped list forwards to the list under it, and \<open>toArray\<close>, which recurses
  through the handler it passes) have every argument in their domain: the recursion is
  well-founded on every list value and for all handlers. The object algebra has no
  recursive operation; what its operations return on the list built from a finite
  sequence is given explicitly, with the results of the other encodings on that list.
\<close>

theorem operations_total:
  "tu_map_dom (tlist, f) \<and> tu_toArray_dom tlist
   \<and> sp_caseOf_dom (plist, onEmpty, onCons) \<and> sp_toArray_dom plist
   \<and> sk_caseOf_dom (klist, hs) \<and> sk_toArray_dom klist
   \<and> tu_toArray (tu_map (tu_build xs) g) = map g xs
   \<and> sp_toArray (sp_map (sp_build xs) g) = map g xs
   \<and> sk_toArray (sk_map (sk_build xs) g) = map g xs
   \<and> oa_map (oa_build xs) g = oa_build (map g xs)
   \<and> oa_toArray (oa_map (oa_build xs) g) = map g xs"
  by (simp add: tu_map_total tu_toArray_total sp_caseOf_total sp_toArray_total
      sk_caseOf_total sk_toArray_total tu_toArray_map tu_toArray_build
      sp_map_def sp_toArray_Map sp_toArray_build sk_map_def sk_toArray_Map sk_toArray_build
      oa_map_build oa_toArray_build)

text \<open>
  C10. In each encoding \<open>map\<close> keeps the number of elements: the array of the mapped
  list is as long as the array of the list.
\<close>

theorem map_preserves_length:
  "length (tu_toArray (tu_map tlist f)) = length (tu_toArray tlist)
   \<and> length (sp_toArray (sp_map plist g)) = length (sp_toArray plist)
   \<and> length (sk_toArray (sk_map klist g)) = length (sk_toArray klist)
   \<and> length (oa_toArray (oa_map (oa_build xs) h)) = length (oa_toArray (oa_build xs))"
  by (simp add: tu_toArray_map sp_map_def sp_toArray_Map sk_map_def sk_toArray_Map
      oa_map_build oa_toArray_build)

end
